theory Spec2Isabelle
  imports Main "HOL-Library.Char_ord"
begin

section \<open>Errors\<close>

text \<open>
  Go errors as values. The leaves are the errors of the collaborators and of the standard
  library, each carrying its own text; \<open>Errorf prefix e\<close> is
  \<^verbatim>\<open>fmt.Errorf(prefix + "%w", e)\<close>, the wrapping that both source files use.
  \<open>ContextError\<close> is what \<^verbatim>\<open>ctx.Err()\<close> returns once the context is done.
\<close>

datatype ctx_error = Canceled | DeadlineExceeded

datatype error =
    ConfigError string
  | JSONError string
  | HTTPError string
  | TransportError string
  | ContextError ctx_error
  | ReadError string
  | UpstreamError int string
  | SetupError string
  | Errorf string error

fun Error_text :: "error \<Rightarrow> string" where
  "Error_text (ConfigError m) = m"
| "Error_text (JSONError m) = m"
| "Error_text (HTTPError m) = m"
| "Error_text (TransportError m) = m"
| "Error_text (ContextError Canceled) = ''context canceled''"
| "Error_text (ContextError DeadlineExceeded) = ''context deadline exceeded''"
| "Error_text (ReadError m) = m"
| "Error_text (UpstreamError code m) = m"
| "Error_text (SetupError m) = m"
| "Error_text (Errorf prefix e) = prefix @ Error_text e"

fun Unwrap :: "error \<Rightarrow> error option" where
  "Unwrap (Errorf prefix e) = Some e"
| "Unwrap e = None"

section \<open>The Go standard library functions the client calls\<close>

subsection \<open>net/url: percent escaping\<close>

datatype encoding =
    encodePath
  | encodePathSegment
  | encodeHost
  | encodeZone
  | encodeUserPassword
  | encodeQueryComponent
  | encodeFragment

text \<open>
  \<^verbatim>\<open>shouldEscape(c, mode)\<close> of net/url: letters and digits are never escaped; a host may
  keep the sub-delimiters; the marks \<^verbatim>\<open>- _ . ~\<close> are never escaped; what happens to a
  reserved character depends on the mode; everything else is escaped.
\<close>

definition shouldEscape :: "char \<Rightarrow> encoding \<Rightarrow> bool" where
  "shouldEscape c mode =
    (if (CHR ''a'' \<le> c \<and> c \<le> CHR ''z'') \<or> (CHR ''A'' \<le> c \<and> c \<le> CHR ''Z'')
        \<or> (CHR ''0'' \<le> c \<and> c \<le> CHR ''9'') then False
     else if (mode = encodeHost \<or> mode = encodeZone)
        \<and> c \<in> set (''!$&()*+,;=:[]<>'' @ [CHR 0x27, CHR 0x22]) then False
     else if c \<in> set ''-_.~'' then False
     else if c \<in> set ''$&+,/:;=?@'' then
       (case mode of
          encodePath \<Rightarrow> c = CHR ''?''
        | encodePathSegment \<Rightarrow> c = CHR ''/'' \<or> c = CHR '';'' \<or> c = CHR '','' \<or> c = CHR ''?''
        | encodeUserPassword \<Rightarrow> c = CHR ''@'' \<or> c = CHR ''/'' \<or> c = CHR ''?'' \<or> c = CHR '':''
        | encodeQueryComponent \<Rightarrow> True
        | encodeFragment \<Rightarrow> False
        | _ \<Rightarrow> True)
     else if mode = encodeFragment \<and> c \<in> set ''!()*'' then False
     else True)"

definition upperhex :: string where
  "upperhex = ''0123456789ABCDEF''"

text \<open>One round of the second loop of \<^verbatim>\<open>escape\<close>: what one byte of the input becomes.\<close>

definition escape_byte :: "encoding \<Rightarrow> char \<Rightarrow> string" where
  "escape_byte mode c =
    (if c = CHR '' '' \<and> mode = encodeQueryComponent then ''+''
     else if shouldEscape c mode then
       [CHR ''%'', upperhex ! (of_char c div 16), upperhex ! (of_char c mod 16)]
     else [c])"

text \<open>
  \<^verbatim>\<open>escape(s, mode)\<close>: the first loop counts the bytes to rewrite, and the string is
  returned as it is when there is none; otherwise the second loop rewrites byte by byte.
\<close>

fun escape_counts :: "string \<Rightarrow> encoding \<Rightarrow> nat \<times> nat" where
  "escape_counts [] mode = (0, 0)"
| "escape_counts (c # s) mode =
    (let (spaceCount, hexCount) = escape_counts s mode in
     if shouldEscape c mode then
       (if c = CHR '' '' \<and> mode = encodeQueryComponent then (Suc spaceCount, hexCount)
        else (spaceCount, Suc hexCount))
     else (spaceCount, hexCount))"

definition escape :: "string \<Rightarrow> encoding \<Rightarrow> string" where
  "escape s mode =
    (let (spaceCount, hexCount) = escape_counts s mode in
     if spaceCount = 0 \<and> hexCount = 0 then s
     else concat (map (escape_byte mode) s))"

definition PathEscape :: "string \<Rightarrow> string" where
  "PathEscape s = escape s encodePathSegment"

subsection \<open>net/url: rendering a URL\<close>

text \<open>
  The fields of \<^verbatim>\<open>url.URL\<close> that the client fills in. \<^verbatim>\<open>URI\<close> builds its URL as a
  literal with these three fields, so \<^verbatim>\<open>Opaque\<close>, \<^verbatim>\<open>User\<close>, \<^verbatim>\<open>RawPath\<close>,
  \<^verbatim>\<open>OmitHost\<close>, \<^verbatim>\<open>ForceQuery\<close>, \<^verbatim>\<open>RawQuery\<close> and \<^verbatim>\<open>Fragment\<close> have their zero
  values and the branches of \<^verbatim>\<open>String\<close> that test them are not taken.
\<close>

record URL =
  Scheme :: string
  Host :: string
  Path :: string

definition EscapedPath :: "URL \<Rightarrow> string" where
  "EscapedPath u = (if Path u = ''*'' then ''*'' else escape (Path u) encodePath)"

definition URL_String :: "URL \<Rightarrow> string" where
  "URL_String u =
    (let buf0 = (if Scheme u \<noteq> [] then Scheme u @ '':'' else []);
         buf1 = buf0 @
           (if Scheme u \<noteq> [] \<or> Host u \<noteq> [] then
              (if Host u \<noteq> [] \<or> Path u \<noteq> [] then ''//'' else [])
              @ (if Host u \<noteq> [] then escape (Host u) encodeHost else [])
            else []);
         path = EscapedPath u;
         buf2 = buf1 @
           (if path \<noteq> [] \<and> hd path \<noteq> CHR ''/'' \<and> Host u \<noteq> [] then ''/'' else []);
         buf3 = buf2 @
           (if buf2 = [] \<and> CHR '':'' \<in> set (takeWhile (\<lambda>c. c \<noteq> CHR ''/'') path)
            then ''./'' else [])
     in buf3 @ path)"

subsection \<open>strings\<close>

text \<open>
  \<^verbatim>\<open>strings.ReplaceAll(s, old, new)\<close> for a non-empty \<open>old\<close>: the non-overlapping
  occurrences, from the left. The client's only pattern is the one byte \<^verbatim>\<open>"/"\<close>; the
  empty pattern, which Go matches between UTF-8 sequences, has no equation here.
\<close>

fun strings_ReplaceAll :: "string \<Rightarrow> string \<Rightarrow> string \<Rightarrow> string" where
  "strings_ReplaceAll [] (a # old) new = []"
| "strings_ReplaceAll (c # s) (a # old) new =
    (if c = a \<and> take (length old) s = old
     then new @ strings_ReplaceAll (drop (length old) s) (a # old) new
     else c # strings_ReplaceAll s (a # old) new)"

fun strings_Join :: "string list \<Rightarrow> string \<Rightarrow> string" where
  "strings_Join [] sep = []"
| "strings_Join [e] sep = e"
| "strings_Join (e # es) sep = e @ sep @ strings_Join es sep"

text \<open>
  \<^verbatim>\<open>strings.Split(s, sep)\<close> for a one-byte separator: the pieces between the separators,
  one more piece than there are separators, so the empty string splits into one empty
  piece. The client does not call it; it is how a reader of the URL takes the path apart.
\<close>

fun strings_Split :: "string \<Rightarrow> char \<Rightarrow> string list" where
  "strings_Split [] sep = [[]]"
| "strings_Split (c # s) sep =
    (let pieces = strings_Split s sep in
     if c = sep then [] # pieces else (c # hd pieces) # tl pieces)"

section \<open>The HTTP client: internal/api/http\_client.go\<close>

subsection \<open>The client and its construction\<close>

text \<open>
  \<^verbatim>\<open>httpClient\<close> without its \<^verbatim>\<open>*http.Client\<close> and its logger: the transport is a
  parameter of \<open>Do\<close> below, and log lines are not part of the model.
\<close>

record httpClient =
  baseUrl :: URL
  basepath :: string
  token :: string

text \<open>
  The configuration package is not part of these sources: a tenant is what the client
  reads of it, and \<^verbatim>\<open>cfg.GetTenant\<close> is a parameter.
\<close>

record Tenant =
  Name :: string
  AccessToken :: string

text \<open>
  \<^verbatim>\<open>url.Parse("https://api.asgardeo.io/")\<close> is a call on a constant; it succeeds with
  the URL written out here, so the error branch after it is never taken.
\<close>

definition NewHTTPClientAPI :: "(string \<Rightarrow> error + Tenant) \<Rightarrow> string \<Rightarrow> error + httpClient" where
  "NewHTTPClientAPI cfg_GetTenant tenantDomain =
    (case cfg_GetTenant tenantDomain of
       Inl err \<Rightarrow> Inl err
     | Inr tenant \<Rightarrow>
         (let basepath = ''t/'' @ Name tenant @ ''/api/server/v1'';
              u = \<lparr>Scheme = ''https'', Host = ''api.asgardeo.io'', Path = ''/''\<rparr>
          in Inr \<lparr>baseUrl = u, basepath = basepath, token = AccessToken tenant\<rparr>))"

subsection \<open>URI\<close>

definition escapedForwardSlash :: string where
  "escapedForwardSlash = ''%2F''"

definition URI :: "httpClient \<Rightarrow> string list \<Rightarrow> string" where
  "URI c path =
    (let baseURL = \<lparr>Scheme = Scheme (baseUrl c), Host = Host (baseUrl c),
                     Path = basepath c @ ''/''\<rparr>;
         escapedPath =
           map (\<lambda>unescapedPath.
                  let defaultPathEscaped = PathEscape unescapedPath
                  in strings_ReplaceAll defaultPathEscaped ''/'' escapedForwardSlash)
               path
     in URL_String baseURL @ strings_Join escapedPath ''/'')"

text \<open>
  The simpler builder that the slash replacement is compared with: the same base, and
  the segments escaped by \<^verbatim>\<open>url.PathEscape\<close> alone.
\<close>

definition URI_simple :: "httpClient \<Rightarrow> string list \<Rightarrow> string" where
  "URI_simple c path =
    URL_String \<lparr>Scheme = Scheme (baseUrl c), Host = Host (baseUrl c), Path = basepath c @ ''/''\<rparr>
      @ strings_Join (map PathEscape path) ''/''"


subsection \<open>Requests, responses and the environment\<close>

text \<open>
  \<^verbatim>\<open>http.Header\<close> is a map from a key to its values. \<^verbatim>\<open>Add\<close> appends a value,
  \<^verbatim>\<open>Set\<close> replaces them all, \<^verbatim>\<open>Get\<close> reads the first. The two keys the client
  uses, \<^verbatim>\<open>Content-Type\<close> and \<^verbatim>\<open>Authorization\<close>, are in canonical form already, so
  the canonicalisation of the key is the identity on them.
\<close>

type_synonym Header = "string \<rightharpoonup> string list"

definition Header_Add :: "Header \<Rightarrow> string \<Rightarrow> string \<Rightarrow> Header" where
  "Header_Add h key v = h(key \<mapsto> (case h key of None \<Rightarrow> [] | Some vs \<Rightarrow> vs) @ [v])"

definition Header_Set :: "Header \<Rightarrow> string \<Rightarrow> string \<Rightarrow> Header" where
  "Header_Set h key v = h(key \<mapsto> [v])"

definition Header_Get :: "Header \<Rightarrow> string \<Rightarrow> string" where
  "Header_Get h key = (case h key of None \<Rightarrow> [] | Some [] \<Rightarrow> [] | Some (v # vs) \<Rightarrow> v)"

text \<open>
  What the client reads and writes of \<^verbatim>\<open>http.Request\<close>: \<open>Target\<close> is the URL the
  request was built with, \<open>Body\<close> the bytes of its body.
\<close>

record Request =
  Method :: string
  Target :: string
  Header :: Header
  Body :: string

text \<open>
  A response body is a stream: the bytes it yields, and the error that ends it if it does
  not end cleanly. \<^verbatim>\<open>io.ReadAll\<close> reads it to the end.
\<close>

datatype Reader = Reader string "error option"

fun io_ReadAll :: "Reader \<Rightarrow> error + string" where
  "io_ReadAll (Reader bytes None) = Inr bytes"
| "io_ReadAll (Reader bytes (Some err)) = Inl err"

record Response =
  StatusCode :: int
  ResponseBody :: Reader

text \<open>
  The payload is an \<^verbatim>\<open>interface{}\<close>: the nil interface, a value held directly, a
  pointer to a value of the caller's (an address of the store), or a nil pointer of some
  pointer type. The store holds the values that pointers refer to.
\<close>

datatype 'v payload = NilInterface | Value 'v | Pointer nat | NilPointer

type_synonym 'v store = "nat \<Rightarrow> 'v"

text \<open>
  The environment of a call: the JSON codec for the caller's values, \<^verbatim>\<open>url.Parse\<close> as
  far as \<^verbatim>\<open>http.NewRequestWithContext\<close> looks at it (its error), and the round trip of
  \<^verbatim>\<open>http.Client.Do\<close>.
  \<^item> \<open>json_Marshal v\<close> is the JSON text of \<open>v\<close>, or the encoder's error.
  \<^item> \<open>json_Decode data v\<close> decodes into an addressable value that holds \<open>v\<close>: the error, if
    any, and the value the target holds afterwards.
  \<^item> \<open>json_DecodeAny data\<close> decodes into an interface variable; the variable belongs to the
    callee, so only the error is seen.
  \<^item> \<open>RoundTrip req\<close> is the outcome of sending \<open>req\<close>, and what \<^verbatim>\<open>ctx.Err()\<close> of the
    request's context is when the send returns: \<open>None\<close> while the context is not done.
\<close>

record 'v env =
  json_Marshal :: "'v \<Rightarrow> error + string"
  json_Decode :: "string \<Rightarrow> 'v \<Rightarrow> error option \<times> 'v"
  json_DecodeAny :: "string \<Rightarrow> error option"
  url_Parse :: "string \<Rightarrow> error option"
  RoundTrip :: "Request \<Rightarrow> (error + Response) \<times> ctx_error option"

text \<open>
  \<^verbatim>\<open>json.NewEncoder(&body).Encode(payload)\<close>: the JSON text and a newline. A pointer is
  encoded as what it points to, a nil pointer and the nil interface as \<^verbatim>\<open>null\<close>.
\<close>

definition json_Encode :: "'v env \<Rightarrow> 'v payload \<Rightarrow> 'v store \<Rightarrow> error + string" where
  "json_Encode env payload store =
    (case payload of
       NilInterface \<Rightarrow> Inr (''null'' @ [CHR 0x0A])
     | NilPointer \<Rightarrow> Inr (''null'' @ [CHR 0x0A])
     | Value v \<Rightarrow>
         (case json_Marshal env v of Inl err \<Rightarrow> Inl err | Inr text \<Rightarrow> Inr (text @ [CHR 0x0A]))
     | Pointer a \<Rightarrow>
         (case json_Marshal env (store a) of
            Inl err \<Rightarrow> Inl err
          | Inr text \<Rightarrow> Inr (text @ [CHR 0x0A])))"

text \<open>
  \<^verbatim>\<open>json.Unmarshal(data, &payload)\<close>, where \<^verbatim>\<open>payload\<close> is the callee's interface
  variable: the decoder follows a non-nil pointer held in the interface and decodes into
  what it points to; otherwise it stores a fresh value in the variable itself.
\<close>

definition json_Unmarshal :: "'v env \<Rightarrow> string \<Rightarrow> 'v payload \<Rightarrow> 'v store \<Rightarrow> error option \<times> 'v store" where
  "json_Unmarshal env data payload store =
    (case payload of
       Pointer a \<Rightarrow> (let (err, v) = json_Decode env data (store a) in (err, store(a := v)))
     | _ \<Rightarrow> (json_DecodeAny env data, store))"

text \<open>
  \<^verbatim>\<open>http.NewRequestWithContext\<close>: an empty method means GET, the method must be a
  token, the URL must parse; the request starts with no header. The context is never nil
  here.
\<close>

definition isToken :: "char \<Rightarrow> bool" where
  "isToken c =
    ((CHR ''a'' \<le> c \<and> c \<le> CHR ''z'') \<or> (CHR ''A'' \<le> c \<and> c \<le> CHR ''Z'')
     \<or> (CHR ''0'' \<le> c \<and> c \<le> CHR ''9'')
     \<or> c \<in> set (''!#$%&*+-.^_|~'' @ [CHR 0x27, CHR 0x60]))"

definition validMethod :: "string \<Rightarrow> bool" where
  "validMethod method = (0 < length method \<and> list_all isToken method)"

definition http_NewRequestWithContext :: "'v env \<Rightarrow> string \<Rightarrow> string \<Rightarrow> string \<Rightarrow> error + Request" where
  "http_NewRequestWithContext env method url body =
    (let method = (if method = [] then ''GET'' else method) in
     if \<not> validMethod method then Inl (HTTPError (''net/http: invalid method '' @ method))
     else case url_Parse env url of
            Some err \<Rightarrow> Inl err
          | None \<Rightarrow> Inr \<lparr>Method = method, Target = url, Header = Map.empty, Body = body\<rparr>)"

subsection \<open>NewRequest, Do and Request\<close>

definition nullBody :: string where
  "nullBody = ''null'' @ [CHR 0x0A]"

definition NewRequest ::
  "httpClient \<Rightarrow> 'v env \<Rightarrow> string \<Rightarrow> string \<Rightarrow> 'v payload \<Rightarrow> 'v store \<Rightarrow> error + Request" where
  "NewRequest c env method uri payload store =
    (case (if payload \<noteq> NilInterface then json_Encode env payload store else Inr []) of
       Inl err \<Rightarrow> Inl (Errorf ''encoding request payload failed: '' err)
     | Inr encoded \<Rightarrow>
         (let body = (if encoded = nullBody then [] else encoded) in
          case http_NewRequestWithContext env method uri body of
            Inl err \<Rightarrow> Inl err
          | Inr request \<Rightarrow>
              Inr (request\<lparr>Header := Header_Add (Header request) ''Content-Type'' ''application/json''\<rparr>)))"

text \<open>
  \<open>Do\<close> writes the header into the caller's request, so the request as \<open>Do\<close> leaves it is
  part of the result. The \<^verbatim>\<open>select\<close> takes the context's error when the context is
  done and the transport's error otherwise.
\<close>

definition Do :: "httpClient \<Rightarrow> 'v env \<Rightarrow> Request \<Rightarrow> Request \<times> (error + Response)" where
  "Do c env req =
    (let req = req\<lparr>Header := Header_Set (Header req) ''Authorization'' (''Bearer '' @ token c)\<rparr>;
         (result, ctx_Err) = RoundTrip env req
     in case result of
          Inl err \<Rightarrow>
            (case ctx_Err of
               Some ctx_err \<Rightarrow> (req, Inl (ContextError ctx_err))
             | None \<Rightarrow> (req, Inl err))
        | Inr response \<Rightarrow> (req, Inr response))"

text \<open>
  Modelled from the spec: \<^verbatim>\<open>newError\<close>, which \<^verbatim>\<open>Request\<close> calls on a response of
  status 400 or more and which is not part of these sources. It reads the body and tries
  to extract a message from it, in the format of the upstream service (\<open>extract\<close>); the
  error carries the status code and that message, or a generic message built from the
  status code alone (\<open>generic\<close>) when the body does not have the expected shape.
\<close>

definition newError :: "(string \<Rightarrow> string option) \<Rightarrow> (int \<Rightarrow> string) \<Rightarrow> Response \<Rightarrow> error" where
  "newError extract generic response =
    (case io_ReadAll (ResponseBody response) of
       Inl err \<Rightarrow> UpstreamError (StatusCode response) (generic (StatusCode response))
     | Inr body \<Rightarrow>
         (case extract body of
            Some message \<Rightarrow> UpstreamError (StatusCode response) message
          | None \<Rightarrow> UpstreamError (StatusCode response) (generic (StatusCode response))))"

definition http_StatusBadRequest :: int where
  "http_StatusBadRequest = 400"

text \<open>
  \<open>Request\<close> returns its error and the store as it leaves it: the payload is passed by
  value, so the store is all of the caller's that the call can change.
\<close>

definition Request ::
  "httpClient \<Rightarrow> 'v env \<Rightarrow> (string \<Rightarrow> string option) \<Rightarrow> (int \<Rightarrow> string)
     \<Rightarrow> string \<Rightarrow> string \<Rightarrow> 'v payload \<Rightarrow> 'v store \<Rightarrow> error option \<times> 'v store" where
  "Request c env extract generic method uri payload store =
    (case NewRequest c env method uri payload store of
       Inl err \<Rightarrow> (Some (Errorf ''failed to create a new request: '' err), store)
     | Inr request \<Rightarrow>
         (case snd (Do c env request) of
            Inl err \<Rightarrow> (Some (Errorf ''failed to send the request: '' err), store)
          | Inr response \<Rightarrow>
              if StatusCode response \<ge> http_StatusBadRequest
              then (Some (newError extract generic response), store)
              else
                (case io_ReadAll (ResponseBody response) of
                   Inl err \<Rightarrow> (Some (Errorf ''failed to read the response body: '' err), store)
                 | Inr responseBody \<Rightarrow>
                     if length responseBody > 0 \<and> responseBody \<noteq> ''{}'' then
                       (case json_Unmarshal env responseBody payload store of
                          (Some err, store') \<Rightarrow>
                            (Some (Errorf ''failed to unmarshal response payload: '' err), store')
                        | (None, store') \<Rightarrow> (None, store'))
                     else (None, store))))"

section \<open>The command dispatcher: internal/cmd/root.go\<close>

definition commandsWithNoAuthRequired :: "string \<rightharpoonup> bool" where
  "commandsWithNoAuthRequired = [''asgardeo login'' \<mapsto> True, ''asgardeo logout'' \<mapsto> True]"

text \<open>Reading a Go map at a key it does not hold gives the zero value, \<^verbatim>\<open>false\<close>.\<close>

definition commandRequiresAuthentication :: "string \<Rightarrow> bool" where
  "commandRequiresAuthentication invokedCommandName =
    (\<not> (case commandsWithNoAuthRequired invokedCommandName of None \<Rightarrow> False | Some b \<Rightarrow> b))"

text \<open>
  \<^verbatim>\<open>core.CLI\<close> is not part of these sources: the dispatcher uses its session setup, which
  works on a state of its own (\<open>'s\<close>: the session, the terminal, what has run so far) and
  may fail.
\<close>

record 's CLI =
  SetupWithAuthentication :: "'s \<Rightarrow> error option \<times> 's"

text \<open>The \<^verbatim>\<open>PersistentPreRunE\<close> hook that \<^verbatim>\<open>buildRootCmd\<close> installs on the root command.\<close>

definition PersistentPreRunE :: "'s CLI \<Rightarrow> string \<Rightarrow> 's \<Rightarrow> error option \<times> 's" where
  "PersistentPreRunE cli commandPath s =
    (if \<not> commandRequiresAuthentication commandPath then (None, s)
     else case SetupWithAuthentication cli s of
            (Some err, s') \<Rightarrow> (Some (Errorf ''authentication failed: '' err), s')
          | (None, s') \<Rightarrow> (None, s'))"

text \<open>
  How cobra executes a command under this root: the persistent pre-run hook first, and
  the command's own \<^verbatim>\<open>RunE\<close> only when the hook returned no error.
\<close>

definition cobra_execute ::
  "'s CLI \<Rightarrow> string \<Rightarrow> ('s \<Rightarrow> error option \<times> 's) \<Rightarrow> 's \<Rightarrow> error option \<times> 's" where
  "cobra_execute cli commandPath RunE s =
    (case PersistentPreRunE cli commandPath s of
       (Some err, s') \<Rightarrow> (Some err, s')
     | (None, s') \<Rightarrow> RunE s')"


section \<open>Example data\<close>

text \<open>
  A configuration with two tenants, a client for the first of them, and a canned server:
  the values are their own JSON text, every URL parses, and the outcome of a round trip
  depends on the target alone.
\<close>

definition fixture_config :: "string \<Rightarrow> error + Tenant" where
  "fixture_config tenantDomain =
    (if tenantDomain = ''acme'' then Inr \<lparr>Name = ''acme'', AccessToken = ''secret''\<rparr>
     else if tenantDomain = ''my org'' then Inr \<lparr>Name = ''my org'', AccessToken = ''secret''\<rparr>
     else Inl (ConfigError ''tenant not found''))"

definition fixture_client :: httpClient where
  "fixture_client =
    \<lparr>baseUrl = \<lparr>Scheme = ''https'', Host = ''api.asgardeo.io'', Path = ''/''\<rparr>,
     basepath = ''t/acme/api/server/v1'', token = ''secret''\<rparr>"

definition fixture_RoundTrip :: "Request \<Rightarrow> (error + Response) \<times> ctx_error option" where
  "fixture_RoundTrip req =
    (if Target req = ''/ok'' then
       (Inr \<lparr>StatusCode = 200, ResponseBody = Reader ''[1,2]'' None\<rparr>, None)
     else if Target req = ''/empty'' then
       (Inr \<lparr>StatusCode = 200, ResponseBody = Reader ''{}'' None\<rparr>, None)
     else if Target req = ''/moved'' then
       (Inr \<lparr>StatusCode = 302, ResponseBody = Reader [] None\<rparr>, None)
     else if Target req = ''/cancelled'' then
       (Inl (TransportError ''use of closed network connection''), Some Canceled)
     else if Target req = ''/down'' then
       (Inl (TransportError ''connection refused''), None)
     else (Inr \<lparr>StatusCode = 404, ResponseBody = Reader ''not found'' None\<rparr>, None))"

definition fixture_env :: "string env" where
  "fixture_env =
    \<lparr>json_Marshal = (\<lambda>v. Inr v),
     json_Decode = (\<lambda>data v. (None, data)),
     json_DecodeAny = (\<lambda>data. None),
     url_Parse = (\<lambda>url. None),
     RoundTrip = fixture_RoundTrip\<rparr>"

definition fixture_store :: "string store" where
  "fixture_store = (\<lambda>a. ''null'')"

definition fixture_generic :: "int \<Rightarrow> string" where
  "fixture_generic code = ''request failed''"

text \<open>
  A session setup that succeeds or fails as it is told, and a command body; both record
  that they ran.
\<close>

datatype event = SetupCalled | BodyRan

definition fixture_cli :: "bool \<Rightarrow> event list CLI" where
  "fixture_cli ok =
    \<lparr>SetupWithAuthentication =
       (\<lambda>s. (if ok then None else Some (SetupError ''not logged in''), s @ [SetupCalled]))\<rparr>"

definition fixture_RunE :: "event list \<Rightarrow> error option \<times> event list" where
  "fixture_RunE s = (None, s @ [BodyRan])"

section \<open>Percent escaping, joining and splitting\<close>

lemma upperhex_not_slash: "n < 16 \<Longrightarrow> upperhex ! n \<noteq> CHR ''/''"
proof -
  assume "n < 16"
  then have "upperhex ! n \<in> set upperhex" by (intro nth_mem) (simp add: upperhex_def)
  moreover have "CHR ''/'' \<notin> set upperhex" by (simp add: upperhex_def)
  ultimately show ?thesis by metis
qed

lemma shouldEscape_slash: "shouldEscape (CHR ''/'') encodePathSegment"
  by (simp add: shouldEscape_def)

lemma escape_byte_no_slash: "CHR ''/'' \<notin> set (escape_byte encodePathSegment c)"
proof -
  have a: "(of_char c :: nat) div 16 < 16"
    using nat_of_char_less_256 [of c] by (simp add: less_mult_imp_div_less)
  have b: "(of_char c :: nat) mod 16 < 16" by simp
  show ?thesis
    using upperhex_not_slash [OF a] upperhex_not_slash [OF b] shouldEscape_slash
    by (auto simp: escape_byte_def)
qed

lemma escape_counts_zero:
  "escape_counts s mode = (0, 0) \<longleftrightarrow> (\<forall>c \<in> set s. \<not> shouldEscape c mode)"
  by (induction s) (auto split: prod.splits)

lemma escape_byte_id: "\<not> shouldEscape c mode \<Longrightarrow> escape_byte mode c = [c]"
  by (auto simp: escape_byte_def shouldEscape_def)

lemma concat_escape_byte_id:
  "\<forall>c \<in> set s. \<not> shouldEscape c mode \<Longrightarrow> concat (map (escape_byte mode) s) = s"
  by (induction s) (simp_all add: escape_byte_id)

text \<open>The shortcut of \<open>escape\<close> changes nothing: the result is always the bytewise one.\<close>

lemma escape_eq: "escape s mode = concat (map (escape_byte mode) s)"
proof (cases "escape_counts s mode = (0, 0)")
  case True
  then show ?thesis
    by (simp add: escape_def concat_escape_byte_id escape_counts_zero [symmetric])
next
  case False
  then show ?thesis by (auto simp: escape_def split: prod.splits)
qed

lemma escape_append: "escape (a @ b) mode = escape a mode @ escape b mode"
  by (simp add: escape_eq)

lemma escape_unreserved: "\<forall>ch \<in> set s. \<not> shouldEscape ch mode \<Longrightarrow> escape s mode = s"
  by (simp add: escape_eq concat_escape_byte_id)

lemma PathEscape_no_slash: "CHR ''/'' \<notin> set (PathEscape s)"
  by (simp add: PathEscape_def escape_eq escape_byte_no_slash)

lemma PathEscape_slash: "PathEscape (a @ ''/'' @ b) = PathEscape a @ ''%2F'' @ PathEscape b"
  by (simp add: PathEscape_def escape_eq escape_byte_def shouldEscape_def upperhex_def)

lemma ReplaceAll_absent: "a \<notin> set s \<Longrightarrow> strings_ReplaceAll s [a] new = s"
  by (induction s) auto

lemma Split_no_sep: "sep \<notin> set x \<Longrightarrow> strings_Split x sep = [x]"
  by (induction x) (auto simp: Let_def)

lemma Split_append_sep:
  "sep \<notin> set x \<Longrightarrow> strings_Split (x @ sep # rest) sep = x # strings_Split rest sep"
  by (induction x) (auto simp: Let_def)

lemma Split_Join:
  "es \<noteq> [] \<Longrightarrow> \<forall>e \<in> set es. sep \<notin> set e \<Longrightarrow> strings_Split (strings_Join es [sep]) sep = es"
proof (induction es "[sep]" rule: strings_Join.induct)
  case 1
  then show ?case by simp
next
  case (2 e)
  then show ?case by (simp add: Split_no_sep)
next
  case (3 e v va)
  then show ?case by (simp add: Split_append_sep)
qed

section \<open>URI\<close>

lemma escape_host_const: "escape ''api.asgardeo.io'' encodeHost = ''api.asgardeo.io''"
  by (simp add: escape_eq escape_byte_def shouldEscape_def)

lemma escape_prefix_const: "escape ''t/'' encodePath = ''t/''"
  by (simp add: escape_eq escape_byte_def shouldEscape_def)

lemma escape_suffix_const: "escape ''/api/server/v1/'' encodePath = ''/api/server/v1/''"
  by (simp add: escape_eq escape_byte_def shouldEscape_def)

lemma escape_basepath:
  "escape (''t/'' @ name @ ''/api/server/v1'' @ ''/'') encodePath
     = ''t/'' @ escape name encodePath @ ''/api/server/v1/''"
proof -
  have "escape (''t/'' @ name @ ''/api/server/v1/'') encodePath
     = escape ''t/'' encodePath @ escape name encodePath @ escape ''/api/server/v1/'' encodePath"
    by (simp only: escape_append)
  then show ?thesis
    by (simp only: escape_prefix_const escape_suffix_const) simp
qed

lemma URL_String_tenant:
  "URL_String \<lparr>Scheme = ''https'', Host = ''api.asgardeo.io'',
               Path = (''t/'' @ name @ ''/api/server/v1'') @ ''/''\<rparr>
     = ''https://api.asgardeo.io/t/'' @ escape name encodePath @ ''/api/server/v1/''"
proof -
  have p: "(''t/'' @ name @ ''/api/server/v1'') @ ''/'' \<noteq> ''*''" by simp
  have e: "escape ((''t/'' @ name @ ''/api/server/v1'') @ ''/'') encodePath
      = ''t/'' @ escape name encodePath @ ''/api/server/v1/''"
    using escape_basepath [of name] by simp
  show ?thesis
    unfolding URL_String_def EscapedPath_def Let_def URL.simps if_not_P [OF p] e escape_host_const
    by simp
qed

lemma URI_eq_simple: "URI c path = URI_simple c path"
  by (simp add: URI_def URI_simple_def PathEscape_no_slash ReplaceAll_absent)

text \<open>
  C1, as amended. For the client of a tenant and every list of raw path segments, \<open>URI\<close>
  returns \<^verbatim>\<open>https://api.asgardeo.io/\<close>, then the base path
  \<^verbatim>\<open>t/<tenant>/api/server/v1/\<close> with the tenant name path-escaped as \<^verbatim>\<open>URL.String\<close>
  renders it (the name itself when none of its characters needs escaping in a path),
  then the segments, each escaped by \<^verbatim>\<open>url.PathEscape\<close>, joined by \<^verbatim>\<open>/\<close>. A \<^verbatim>\<open>/\<close>
  inside a segment becomes \<^verbatim>\<open>%2F\<close>, and no escaped segment contains a \<^verbatim>\<open>/\<close>. When
  there is at least one segment, splitting what follows the base path at \<^verbatim>\<open>/\<close> gives
  back the escaped segments, so as many pieces as there were segments.
\<close>

theorem URI_tenant_scoped:
  assumes "cfg_GetTenant tenantDomain = Inr tenant"
    and "NewHTTPClientAPI cfg_GetTenant tenantDomain = Inr c"
  shows "URI c path
           = ''https://api.asgardeo.io/t/'' @ escape (Name tenant) encodePath @ ''/api/server/v1/''
             @ strings_Join (map PathEscape path) ''/''
         \<and> ((\<forall>ch \<in> set (Name tenant). \<not> shouldEscape ch encodePath)
              \<longrightarrow> escape (Name tenant) encodePath = Name tenant)
         \<and> PathEscape (a @ ''/'' @ b) = PathEscape a @ ''%2F'' @ PathEscape b
         \<and> (\<forall>segment \<in> set path. CHR ''/'' \<notin> set (PathEscape segment))
         \<and> (path \<noteq> [] \<longrightarrow>
              strings_Split
                (drop (length (''https://api.asgardeo.io/t/'' @ escape (Name tenant) encodePath
                                 @ ''/api/server/v1/''))
                   (URI c path))
                (CHR ''/'')
              = map PathEscape path)
         \<and> (path \<noteq> [] \<longrightarrow>
              length (strings_Split
                (drop (length (''https://api.asgardeo.io/t/'' @ escape (Name tenant) encodePath
                                 @ ''/api/server/v1/''))
                   (URI c path))
                (CHR ''/''))
              = length path)"
proof -
  let ?base = "''https://api.asgardeo.io/t/'' @ escape (Name tenant) encodePath @ ''/api/server/v1/''"
  let ?rest = "strings_Join (map PathEscape path) ''/''"
  from assms have c: "c = \<lparr>baseUrl = \<lparr>Scheme = ''https'', Host = ''api.asgardeo.io'', Path = ''/''\<rparr>,
      basepath = ''t/'' @ Name tenant @ ''/api/server/v1'', token = AccessToken tenant\<rparr>"
    by (simp add: NewHTTPClientAPI_def)
  have shape: "URI c path
      = ''https://api.asgardeo.io/t/'' @ escape (Name tenant) encodePath @ ''/api/server/v1/'' @ ?rest"
    unfolding URI_eq_simple URI_simple_def c httpClient.simps URL.simps URL_String_tenant
    by simp
  have rest: "drop (length ?base) (URI c path) = ?rest"
    unfolding shape by simp
  have unres: "(\<forall>ch \<in> set (Name tenant). \<not> shouldEscape ch encodePath)
      \<longrightarrow> escape (Name tenant) encodePath = Name tenant"
    by (simp add: escape_unreserved)
  have slash: "PathEscape (a @ ''/'' @ b) = PathEscape a @ ''%2F'' @ PathEscape b"
    by (rule PathEscape_slash)
  have noslash: "\<forall>segment \<in> set path. CHR ''/'' \<notin> set (PathEscape segment)"
    by (simp add: PathEscape_no_slash)
  have split: "path \<noteq> [] \<longrightarrow>
      strings_Split (drop (length ?base) (URI c path)) (CHR ''/'') = map PathEscape path"
    unfolding rest by (intro impI Split_Join) (simp_all add: PathEscape_no_slash)
  have len: "path \<noteq> [] \<longrightarrow>
      length (strings_Split (drop (length ?base) (URI c path)) (CHR ''/'')) = length path"
    using split by simp
  show ?thesis
    by (intro conjI) (rule shape, rule unres, rule slash, rule noslash, rule split, rule len)
qed

theorem URI_tenant_scoped_witness:
  "fixture_config ''acme'' = Inr \<lparr>Name = ''acme'', AccessToken = ''secret''\<rparr>
   \<and> NewHTTPClientAPI fixture_config ''acme'' = Inr fixture_client
   \<and> URI fixture_client [''applications'', ''a/b'']
       = ''https://api.asgardeo.io/t/acme/api/server/v1/applications/a%2Fb''
   \<and> strings_Split ''applications/a%2Fb'' (CHR ''/'') = [''applications'', ''a%2Fb'']"
proof -
  have t: "fixture_config ''acme'' = Inr \<lparr>Name = ''acme'', AccessToken = ''secret''\<rparr>"
    by (simp add: fixture_config_def)
  have c: "NewHTTPClientAPI fixture_config ''acme'' = Inr fixture_client"
    by (simp add: NewHTTPClientAPI_def fixture_config_def fixture_client_def)
  have e: "escape ''acme'' encodePath = ''acme''"
    by (simp add: escape_eq escape_byte_def shouldEscape_def)
  have p1: "PathEscape ''applications'' = ''applications''"
    by (simp add: PathEscape_def escape_eq escape_byte_def shouldEscape_def)
  have p2: "PathEscape ''a/b'' = ''a%2Fb''"
    by (simp add: PathEscape_def escape_eq escape_byte_def shouldEscape_def upperhex_def)
  show ?thesis
    using URI_tenant_scoped [OF t c, of "[''applications'', ''a/b'']"] t c
    by (simp add: e p1 p2)
qed

text \<open>
  C1 as it is written fails in two places. With no segment, what follows the base path is
  the empty string, which splits into one (empty) piece, not into none. And a tenant name
  with a space is not in the URL as it is written: the base path is path-escaped.
\<close>

theorem URI_counterexample:
  "length (strings_Split
      (drop (length ''https://api.asgardeo.io/t/acme/api/server/v1/'') (URI fixture_client []))
      (CHR ''/''))
     \<noteq> length ([] :: string list)
   \<and> NewHTTPClientAPI fixture_config ''my org''
       = Inr \<lparr>baseUrl = \<lparr>Scheme = ''https'', Host = ''api.asgardeo.io'', Path = ''/''\<rparr>,
              basepath = ''t/my org/api/server/v1'', token = ''secret''\<rparr>
   \<and> URI \<lparr>baseUrl = \<lparr>Scheme = ''https'', Host = ''api.asgardeo.io'', Path = ''/''\<rparr>,
          basepath = ''t/my org/api/server/v1'', token = ''secret''\<rparr> [''applications'']
       = ''https://api.asgardeo.io/t/my%20org/api/server/v1/applications''"
  by (simp add: URI_eq_simple URI_simple_def URL_String_def EscapedPath_def escape_eq
      escape_byte_def shouldEscape_def upperhex_def PathEscape_def NewHTTPClientAPI_def
      fixture_config_def fixture_client_def)

text \<open>
  C10. Replacing \<^verbatim>\<open>/\<close> by \<^verbatim>\<open>%2F\<close> in the result of \<^verbatim>\<open>url.PathEscape\<close> changes
  nothing, for every segment, since the result holds no \<^verbatim>\<open>/\<close>; so \<open>URI\<close> is equal to
  the builder that joins the segments escaped by \<^verbatim>\<open>url.PathEscape\<close> alone.
\<close>

theorem URI_slash_replacement_noop:
  "strings_ReplaceAll (PathEscape segment) ''/'' escapedForwardSlash = PathEscape segment
   \<and> URI c path = URI_simple c path"
  by (simp add: URI_eq_simple PathEscape_no_slash ReplaceAll_absent)

section \<open>Request: the response\<close>

lemma Request_after_Do:
  assumes "NewRequest c env method uri payload store = Inr request"
    and "snd (Do c env request) = Inr response"
  shows "Request c env extract generic method uri payload store =
    (if StatusCode response \<ge> 400 then (Some (newError extract generic response), store)
     else
       (case io_ReadAll (ResponseBody response) of
          Inl err \<Rightarrow> (Some (Errorf ''failed to read the response body: '' err), store)
        | Inr responseBody \<Rightarrow>
            if responseBody \<noteq> [] \<and> responseBody \<noteq> ''{}'' then
              (case json_Unmarshal env responseBody payload store of
                 (Some err, store') \<Rightarrow>
                   (Some (Errorf ''failed to unmarshal response payload: '' err), store')
               | (None, store') \<Rightarrow> (None, store'))
            else (None, store)))"
  using assms by (simp add: Request_def http_StatusBadRequest_def split: sum.splits)

lemma Request_after_ReadAll:
  assumes "NewRequest c env method uri payload store = Inr request"
    and "snd (Do c env request) = Inr response"
    and "StatusCode response < 400"
    and "io_ReadAll (ResponseBody response) = Inr responseBody"
  shows "Request c env extract generic method uri payload store =
    (if responseBody \<noteq> [] \<and> responseBody \<noteq> ''{}'' then
       (case json_Unmarshal env responseBody payload store of
          (Some err, store') \<Rightarrow>
            (Some (Errorf ''failed to unmarshal response payload: '' err), store')
        | (None, store') \<Rightarrow> (None, store'))
     else (None, store))"
  using assms(3,4) by (simp add: Request_after_Do [OF assms(1,2)])

lemma fixture_NewRequest:
  "NewRequest fixture_client fixture_env ''GET'' uri (Pointer 0) fixture_store
     = Inr \<lparr>Method = ''GET'', Target = uri,
            Header = [''Content-Type'' \<mapsto> [''application/json'']], Body = []\<rparr>"
  by (simp add: NewRequest_def json_Encode_def fixture_env_def fixture_store_def nullBody_def
      http_NewRequestWithContext_def validMethod_def isToken_def Header_Add_def)

lemma fixture_Do_ok:
  "snd (Do fixture_client fixture_env
      \<lparr>Method = ''GET'', Target = ''/ok'',
       Header = [''Content-Type'' \<mapsto> [''application/json'']], Body = []\<rparr>)
    = Inr \<lparr>StatusCode = 200, ResponseBody = Reader ''[1,2]'' None\<rparr>"
  by (simp add: Do_def fixture_env_def fixture_RoundTrip_def)

lemma fixture_Do_empty:
  "snd (Do fixture_client fixture_env
      \<lparr>Method = ''GET'', Target = ''/empty'',
       Header = [''Content-Type'' \<mapsto> [''application/json'']], Body = []\<rparr>)
    = Inr \<lparr>StatusCode = 200, ResponseBody = Reader ''{}'' None\<rparr>"
  by (simp add: Do_def fixture_env_def fixture_RoundTrip_def)

lemma fixture_Unmarshal:
  "json_Unmarshal fixture_env data (Pointer a) store = (None, store(a := data))"
  by (simp add: json_Unmarshal_def fixture_env_def)

text \<open>
  C2. For a response of status below 400 whose body was read to the end: when the body is
  empty or is \<^verbatim>\<open>{}\<close>, \<open>Request\<close> returns no error and the store is as it was; otherwise
  the body is decoded into the payload by \<^verbatim>\<open>json.Unmarshal\<close>, and an error of the
  decoder is returned wrapped as a failure to unmarshal the response.
\<close>

theorem Request_resolves_success:
  assumes "NewRequest c env method uri payload store = Inr request"
    and "snd (Do c env request) = Inr response"
    and "StatusCode response < 400"
    and "io_ReadAll (ResponseBody response) = Inr responseBody"
  shows "(responseBody = [] \<or> responseBody = ''{}'' \<longrightarrow>
            Request c env extract generic method uri payload store = (None, store))
       \<and> (responseBody \<noteq> [] \<and> responseBody \<noteq> ''{}'' \<longrightarrow>
            Request c env extract generic method uri payload store =
              (case json_Unmarshal env responseBody payload store of
                 (Some err, store') \<Rightarrow>
                   (Some (Errorf ''failed to unmarshal response payload: '' err), store')
               | (None, store') \<Rightarrow> (None, store')))"
  unfolding Request_after_ReadAll [OF assms] by auto

theorem Request_resolves_success_witness:
  "Request fixture_client fixture_env Some fixture_generic ''GET'' ''/empty'' (Pointer 0) fixture_store
     = (None, fixture_store)
   \<and> Request fixture_client fixture_env Some fixture_generic ''GET'' ''/ok'' (Pointer 0) fixture_store
     = (None, fixture_store(0 := ''[1,2]''))"
proof -
  have a: "StatusCode \<lparr>StatusCode = 200, ResponseBody = Reader ''{}'' None\<rparr> < 400" by simp
  have b: "io_ReadAll (ResponseBody \<lparr>StatusCode = 200, ResponseBody = Reader ''{}'' None\<rparr>) = Inr ''{}''"
    by simp
  have c: "StatusCode \<lparr>StatusCode = 200, ResponseBody = Reader ''[1,2]'' None\<rparr> < 400" by simp
  have d: "io_ReadAll (ResponseBody \<lparr>StatusCode = 200, ResponseBody = Reader ''[1,2]'' None\<rparr>) = Inr ''[1,2]''"
    by simp
  show ?thesis
    using Request_resolves_success [OF fixture_NewRequest fixture_Do_empty a b, of Some fixture_generic]
      Request_resolves_success [OF fixture_NewRequest fixture_Do_ok c d, of Some fixture_generic]
    by (simp add: fixture_Unmarshal)
qed

section \<open>Do\<close>

lemma Do_request:
  "fst (Do c env req) = req\<lparr>Header := (Header req)(''Authorization'' \<mapsto> [''Bearer '' @ token c])\<rparr>"
  by (simp add: Do_def Header_Set_def Let_def split: prod.splits sum.splits option.splits)

lemma Do_result:
  "snd (Do c env req) =
    (case RoundTrip env (fst (Do c env req)) of
       (Inl err, Some ctx_err) \<Rightarrow> Inl (ContextError ctx_err)
     | (Inl err, None) \<Rightarrow> Inl err
     | (Inr response, ctx_Err) \<Rightarrow> Inr response)"
  unfolding Do_request
  by (simp add: Do_def Header_Set_def Let_def split: prod.splits sum.splits option.splits)

text \<open>
  C8. For every request, \<open>Do\<close> leaves the request with its \<^verbatim>\<open>Authorization\<close> header
  set to \<^verbatim>\<open>Bearer\<close>, a space and the client's token, whatever the header held
  before, and it is this request that goes on the round trip.
\<close>

theorem Do_sets_Authorization:
  "fst (Do c env req) = req\<lparr>Header := (Header req)(''Authorization'' \<mapsto> [''Bearer '' @ token c])\<rparr>
   \<and> Header (fst (Do c env req)) ''Authorization'' = Some [''Bearer '' @ token c]
   \<and> Header_Get (Header (fst (Do c env req))) ''Authorization'' = ''Bearer '' @ token c
   \<and> snd (Do c env req) =
       (case RoundTrip env (fst (Do c env req)) of
          (Inl err, Some ctx_err) \<Rightarrow> Inl (ContextError ctx_err)
        | (Inl err, None) \<Rightarrow> Inl err
        | (Inr response, ctx_Err) \<Rightarrow> Inr response)"
proof (intro conjI)
  show "snd (Do c env req) =
       (case RoundTrip env (fst (Do c env req)) of
          (Inl err, Some ctx_err) \<Rightarrow> Inl (ContextError ctx_err)
        | (Inl err, None) \<Rightarrow> Inl err
        | (Inr response, ctx_Err) \<Rightarrow> Inr response)"
    by (rule Do_result)
qed (simp_all add: Do_request Header_Get_def)

text \<open>
  C3. When the round trip fails, \<open>Do\<close> returns the error of the context if the context
  is done by the time the round trip returns, and the error of the transport, as it is,
  otherwise.
\<close>

theorem Do_transport_failure:
  assumes "fst (RoundTrip env (fst (Do c env req))) = Inl err"
  shows "(snd (RoundTrip env (fst (Do c env req))) = Some ctx_err
            \<longrightarrow> snd (Do c env req) = Inl (ContextError ctx_err))
       \<and> (snd (RoundTrip env (fst (Do c env req))) = None \<longrightarrow> snd (Do c env req) = Inl err)"
  using assms unfolding Do_result by (auto split: prod.splits)

theorem Do_transport_failure_witness:
  "snd (Do fixture_client fixture_env
      \<lparr>Method = ''GET'', Target = ''/cancelled'', Header = Map.empty, Body = []\<rparr>)
     = Inl (ContextError Canceled)
   \<and> snd (Do fixture_client fixture_env
      \<lparr>Method = ''GET'', Target = ''/down'', Header = Map.empty, Body = []\<rparr>)
     = Inl (TransportError ''connection refused'')"
proof -
  let ?r1 = "\<lparr>Method = ''GET'', Target = ''/cancelled'', Header = Map.empty, Body = []\<rparr>"
  let ?r2 = "\<lparr>Method = ''GET'', Target = ''/down'', Header = Map.empty, Body = []\<rparr>"
  have a: "RoundTrip fixture_env (fst (Do fixture_client fixture_env ?r1))
      = (Inl (TransportError ''use of closed network connection''), Some Canceled)"
    by (simp add: fixture_env_def fixture_RoundTrip_def Do_request)
  have b: "RoundTrip fixture_env (fst (Do fixture_client fixture_env ?r2))
      = (Inl (TransportError ''connection refused''), None)"
    by (simp add: fixture_env_def fixture_RoundTrip_def Do_request)
  have a1: "fst (RoundTrip fixture_env (fst (Do fixture_client fixture_env ?r1)))
      = Inl (TransportError ''use of closed network connection'')"
    by (simp add: a)
  have b1: "fst (RoundTrip fixture_env (fst (Do fixture_client fixture_env ?r2)))
      = Inl (TransportError ''connection refused'')"
    by (simp add: b)
  show ?thesis
    using Do_transport_failure [OF a1, of Canceled] Do_transport_failure [OF b1, of Canceled]
    by (simp add: a b)
qed

section \<open>Request: the classification of the response\<close>

lemma newError_code: "\<exists>message. newError extract generic response = UpstreamError (StatusCode response) message"
  by (simp add: newError_def split: sum.splits option.splits)

text \<open>
  C4. After a round trip that returned a response, \<open>Request\<close> returns the error that
  \<open>newError\<close> builds, which carries the status code, exactly when the status code is 400
  or more; with any smaller status code, a 3xx included, it goes on to read and decode the
  body.
\<close>

theorem Request_classifies_by_status:
  assumes "NewRequest c env method uri payload store = Inr request"
    and "snd (Do c env request) = Inr response"
  shows "(StatusCode response \<ge> 400 \<longrightarrow>
            Request c env extract generic method uri payload store
              = (Some (newError extract generic response), store)
            \<and> (\<exists>message. newError extract generic response
                  = UpstreamError (StatusCode response) message))
       \<and> (StatusCode response < 400 \<longrightarrow>
            Request c env extract generic method uri payload store =
              (case io_ReadAll (ResponseBody response) of
                 Inl err \<Rightarrow> (Some (Errorf ''failed to read the response body: '' err), store)
               | Inr responseBody \<Rightarrow>
                   if responseBody \<noteq> [] \<and> responseBody \<noteq> ''{}'' then
                     (case json_Unmarshal env responseBody payload store of
                        (Some err, store') \<Rightarrow>
                          (Some (Errorf ''failed to unmarshal response payload: '' err), store')
                      | (None, store') \<Rightarrow> (None, store'))
                   else (None, store)))
       \<and> ((\<exists>code message. fst (Request c env extract generic method uri payload store)
              = Some (UpstreamError code message))
            \<longleftrightarrow> StatusCode response \<ge> 400)"
proof (intro conjI impI)
  assume "StatusCode response \<ge> 400"
  then show "Request c env extract generic method uri payload store
      = (Some (newError extract generic response), store)"
    by (simp add: Request_after_Do [OF assms])
next
  show "\<exists>message. newError extract generic response = UpstreamError (StatusCode response) message"
    by (rule newError_code)
next
  assume "StatusCode response < 400"
  then show "Request c env extract generic method uri payload store =
              (case io_ReadAll (ResponseBody response) of
                 Inl err \<Rightarrow> (Some (Errorf ''failed to read the response body: '' err), store)
               | Inr responseBody \<Rightarrow>
                   if responseBody \<noteq> [] \<and> responseBody \<noteq> ''{}'' then
                     (case json_Unmarshal env responseBody payload store of
                        (Some err, store') \<Rightarrow>
                          (Some (Errorf ''failed to unmarshal response payload: '' err), store')
                      | (None, store') \<Rightarrow> (None, store'))
                   else (None, store))"
    by (simp add: Request_after_Do [OF assms])
next
  show "(\<exists>code message. fst (Request c env extract generic method uri payload store)
              = Some (UpstreamError code message))
            \<longleftrightarrow> StatusCode response \<ge> 400"
    using newError_code [of "extract" "generic" "response"]
    by (auto simp: Request_after_Do [OF assms] split: sum.splits prod.splits option.splits)
qed

lemma fixture_Do_missing:
  "snd (Do fixture_client fixture_env
      \<lparr>Method = ''GET'', Target = ''/missing'',
       Header = [''Content-Type'' \<mapsto> [''application/json'']], Body = []\<rparr>)
    = Inr \<lparr>StatusCode = 404, ResponseBody = Reader ''not found'' None\<rparr>"
  by (simp add: Do_def fixture_env_def fixture_RoundTrip_def)

lemma fixture_Do_moved:
  "snd (Do fixture_client fixture_env
      \<lparr>Method = ''GET'', Target = ''/moved'',
       Header = [''Content-Type'' \<mapsto> [''application/json'']], Body = []\<rparr>)
    = Inr \<lparr>StatusCode = 302, ResponseBody = Reader [] None\<rparr>"
  by (simp add: Do_def fixture_env_def fixture_RoundTrip_def)

theorem Request_classifies_by_status_witness:
  "Request fixture_client fixture_env Some fixture_generic ''GET'' ''/missing'' (Pointer 0) fixture_store
     = (Some (UpstreamError 404 ''not found''), fixture_store)
   \<and> Request fixture_client fixture_env Some fixture_generic ''GET'' ''/moved'' (Pointer 0) fixture_store
     = (None, fixture_store)"
  using Request_classifies_by_status [OF fixture_NewRequest fixture_Do_missing, of Some fixture_generic]
    Request_classifies_by_status [OF fixture_NewRequest fixture_Do_moved, of Some fixture_generic]
  by (simp add: newError_def)

section \<open>NewRequest\<close>

lemma http_NewRequestWithContext_Inr:
  assumes "http_NewRequestWithContext env method url body = Inr request"
  shows "request = \<lparr>Method = (if method = [] then ''GET'' else method), Target = url,
                    Header = Map.empty, Body = body\<rparr>"
proof (cases "validMethod (if method = [] then ''GET'' else method)")
  case True
  with assms show ?thesis
    by (cases "url_Parse env url") (simp_all add: http_NewRequestWithContext_def Let_def)
next
  case False
  with assms show ?thesis
    by (simp add: http_NewRequestWithContext_def Let_def)
qed

lemma NewRequest_Inr:
  assumes "NewRequest c env method uri payload store = Inr request"
  shows "\<exists>encoded.
           (if payload \<noteq> NilInterface then json_Encode env payload store else Inr []) = Inr encoded
           \<and> request = \<lparr>Method = (if method = [] then ''GET'' else method), Target = uri,
                         Header = [''Content-Type'' \<mapsto> [''application/json'']],
                         Body = (if encoded = nullBody then [] else encoded)\<rparr>"
proof (cases "if payload \<noteq> NilInterface then json_Encode env payload store else Inr []")
  case (Inl err)
  with assms show ?thesis by (simp add: NewRequest_def)
next
  case (Inr encoded)
  let ?body = "if encoded = nullBody then [] else encoded"
  show ?thesis
  proof (cases "http_NewRequestWithContext env method uri ?body")
    case (Inl err)
    with assms Inr show ?thesis by (simp add: NewRequest_def)
  next
    case r0: (Inr request0)
    from assms Inr r0 have "request
        = request0\<lparr>Header := Header_Add (Header request0) ''Content-Type'' ''application/json''\<rparr>"
      by (simp add: NewRequest_def)
    then show ?thesis
      using Inr by (simp add: http_NewRequestWithContext_Inr [OF r0] Header_Add_def)
  qed
qed

lemma NewRequest_header:
  assumes "NewRequest c env method uri payload store = Inr request"
  shows "Header request = [''Content-Type'' \<mapsto> [''application/json'']]"
  using NewRequest_Inr [OF assms] by auto

lemma NewRequest_null:
  assumes "json_Encode env payload store = Inr nullBody"
  shows "NewRequest c env method uri payload store =
    (case http_NewRequestWithContext env method uri [] of
       Inl err \<Rightarrow> Inl err
     | Inr request \<Rightarrow>
         Inr (request\<lparr>Header := Header_Add (Header request) ''Content-Type'' ''application/json''\<rparr>))"
  using assms by (simp add: NewRequest_def)

text \<open>
  C5. Every request that \<open>NewRequest\<close> returns has the header
  \<^verbatim>\<open>Content-Type: application/json\<close>; and for a payload whose encoding is the null
  token, the request has an empty body, and it is built whenever the method and the URL
  are valid.
\<close>

theorem NewRequest_null_payload:
  "(NewRequest c env method uri payload store = Inr request \<longrightarrow>
      Header request ''Content-Type'' = Some [''application/json'']
      \<and> Header_Get (Header request) ''Content-Type'' = ''application/json'')
   \<and> (json_Encode env payload store = Inr nullBody \<longrightarrow>
        NewRequest c env method uri payload store = Inr request \<longrightarrow> Body request = [])
   \<and> (json_Encode env payload store = Inr nullBody \<longrightarrow>
        validMethod (if method = [] then ''GET'' else method) \<longrightarrow> url_Parse env uri = None \<longrightarrow>
        NewRequest c env method uri payload store
          = Inr \<lparr>Method = (if method = [] then ''GET'' else method), Target = uri,
                 Header = [''Content-Type'' \<mapsto> [''application/json'']], Body = []\<rparr>)"
proof (intro conjI impI)
  assume r: "NewRequest c env method uri payload store = Inr request"
  show "Header request ''Content-Type'' = Some [''application/json'']"
    by (simp add: NewRequest_header [OF r])
  show "Header_Get (Header request) ''Content-Type'' = ''application/json''"
    by (simp add: NewRequest_header [OF r] Header_Get_def)
next
  assume n: "json_Encode env payload store = Inr nullBody"
    and r: "NewRequest c env method uri payload store = Inr request"
  from NewRequest_Inr [OF r] obtain encoded where
    e: "(if payload \<noteq> NilInterface then json_Encode env payload store else Inr []) = Inr encoded"
    and b: "Body request = (if encoded = nullBody then [] else encoded)"
    by auto
  from e n have "encoded = nullBody \<or> encoded = []"
    by (cases "payload = NilInterface") simp_all
  with b show "Body request = []" by auto
next
  assume n: "json_Encode env payload store = Inr nullBody"
    and m: "validMethod (if method = [] then ''GET'' else method)"
    and u: "url_Parse env uri = None"
  show "NewRequest c env method uri payload store
          = Inr \<lparr>Method = (if method = [] then ''GET'' else method), Target = uri,
                 Header = [''Content-Type'' \<mapsto> [''application/json'']], Body = []\<rparr>"
    unfolding NewRequest_null [OF n]
    using m u by (simp add: http_NewRequestWithContext_def Header_Add_def Let_def)
qed

theorem NewRequest_null_payload_witness:
  "json_Encode fixture_env (Value ''null'') fixture_store = Inr nullBody
   \<and> validMethod ''POST''
   \<and> url_Parse fixture_env ''/ok'' = None
   \<and> NewRequest fixture_client fixture_env ''POST'' ''/ok'' (Value ''null'') fixture_store
     = Inr \<lparr>Method = ''POST'', Target = ''/ok'',
            Header = [''Content-Type'' \<mapsto> [''application/json'']], Body = []\<rparr>"
proof -
  have n: "json_Encode fixture_env (Value ''null'') fixture_store = Inr nullBody"
    by (simp add: json_Encode_def fixture_env_def nullBody_def)
  have m: "validMethod ''POST''"
    by (simp add: validMethod_def isToken_def)
  have u: "url_Parse fixture_env ''/ok'' = None"
    by (simp add: fixture_env_def)
  have "NewRequest fixture_client fixture_env ''POST'' ''/ok'' (Value ''null'') fixture_store
     = Inr \<lparr>Method = ''POST'', Target = ''/ok'',
            Header = [''Content-Type'' \<mapsto> [''application/json'']], Body = []\<rparr>"
    using n m u
      NewRequest_null_payload [of fixture_client fixture_env "''POST''" "''/ok''" "Value ''null''"
        fixture_store]
    by simp
  with n m u show ?thesis by simp
qed

section \<open>Request: the payload as the place of the result\<close>

lemma Request_store_after_decode:
  assumes "NewRequest c env method uri payload store = Inr request"
    and "snd (Do c env request) = Inr response"
    and "StatusCode response < 400"
    and "io_ReadAll (ResponseBody response) = Inr responseBody"
    and "responseBody \<noteq> []" and "responseBody \<noteq> ''{}''"
  shows "snd (Request c env extract generic method uri payload store)
           = snd (json_Unmarshal env responseBody payload store)"
proof (cases "json_Unmarshal env responseBody payload store")
  case (Pair err store')
  then show ?thesis
    using assms(5,6)
    by (cases err) (simp_all add: Request_after_ReadAll [OF assms(1-4)])
qed

lemma NewRequest_body:
  assumes "NewRequest c env method uri payload store = Inr request"
  shows "payload \<noteq> NilInterface \<longrightarrow>
            (\<exists>encoded. json_Encode env payload store = Inr encoded
               \<and> Body request = (if encoded = nullBody then [] else encoded))"
proof
  assume p: "payload \<noteq> NilInterface"
  from NewRequest_Inr [OF assms] obtain encoded where
    e: "(if payload \<noteq> NilInterface then json_Encode env payload store else Inr []) = Inr encoded"
    and q: "request = \<lparr>Method = (if method = [] then ''GET'' else method), Target = uri,
                         Header = [''Content-Type'' \<mapsto> [''application/json'']],
                         Body = (if encoded = nullBody then [] else encoded)\<rparr>"
    by blast
  from e p have "json_Encode env payload store = Inr encoded" by simp
  moreover from q have "Body request = (if encoded = nullBody then [] else encoded)" by simp
  ultimately show "\<exists>encoded. json_Encode env payload store = Inr encoded
               \<and> Body request = (if encoded = nullBody then [] else encoded)"
    by blast
qed

lemma json_Unmarshal_Pointer: "json_Unmarshal env data (Pointer a) store
    = (fst (json_Decode env data (store a)), store(a := snd (json_Decode env data (store a))))"
  by (simp add: json_Unmarshal_def split: prod.splits)
lemma json_Unmarshal_other: "(\<forall>a. payload \<noteq> Pointer a) \<Longrightarrow>
    json_Unmarshal env data payload store = (json_DecodeAny env data, store)"
  by (cases payload) (simp_all add: json_Unmarshal_def)

text \<open>
  C9. For a response of status below 400 with a body that is neither empty nor \<^verbatim>\<open>{}\<close>,
  \<open>Request\<close> decodes the body into the payload it was given, the one whose encoding is
  the body of the request: a payload that is a pointer sees what it points to replaced by
  the decoded value, and with any other payload the caller's store is as it was.
\<close>

theorem Request_payload_is_output_slot:
  assumes "NewRequest c env method uri payload store = Inr request"
    and "snd (Do c env request) = Inr response"
    and "StatusCode response < 400"
    and "io_ReadAll (ResponseBody response) = Inr responseBody"
    and "responseBody \<noteq> []" and "responseBody \<noteq> ''{}''"
  shows "snd (Request c env extract generic method uri payload store)
           = snd (json_Unmarshal env responseBody payload store)
       \<and> (payload \<noteq> NilInterface \<longrightarrow>
            (\<exists>encoded. json_Encode env payload store = Inr encoded
               \<and> Body request = (if encoded = nullBody then [] else encoded)))
       \<and> (\<forall>a. payload = Pointer a \<longrightarrow>
            snd (Request c env extract generic method uri payload store)
              = store(a := snd (json_Decode env responseBody (store a))))
       \<and> ((\<forall>a. payload \<noteq> Pointer a) \<longrightarrow>
            snd (Request c env extract generic method uri payload store) = store)"
proof -
  have r: "snd (Request c env extract generic method uri payload store)
           = snd (json_Unmarshal env responseBody payload store)"
    by (rule Request_store_after_decode [OF assms])
  have b: "payload \<noteq> NilInterface \<longrightarrow>
            (\<exists>encoded. json_Encode env payload store = Inr encoded
               \<and> Body request = (if encoded = nullBody then [] else encoded))"
    by (rule NewRequest_body [OF assms(1)])
  have p: "\<forall>a. payload = Pointer a \<longrightarrow>
            snd (Request c env extract generic method uri payload store)
              = store(a := snd (json_Decode env responseBody (store a)))"
    unfolding r by (simp add: json_Unmarshal_Pointer)
  have n: "(\<forall>a. payload \<noteq> Pointer a) \<longrightarrow>
            snd (Request c env extract generic method uri payload store) = store"
    unfolding r by (simp add: json_Unmarshal_other)
  show ?thesis
    by (intro conjI) (rule r, rule b, rule p, rule n)
qed

lemma fixture_NewRequest_Value:
  "NewRequest fixture_client fixture_env ''GET'' uri (Value ''[7]'') fixture_store
     = Inr \<lparr>Method = ''GET'', Target = uri,
            Header = [''Content-Type'' \<mapsto> [''application/json'']], Body = ''[7]'' @ [CHR 0x0A]\<rparr>"
  by (simp add: NewRequest_def json_Encode_def fixture_env_def fixture_store_def nullBody_def
      http_NewRequestWithContext_def validMethod_def isToken_def Header_Add_def)

lemma fixture_Do_ok_any:
  "snd (Do fixture_client fixture_env \<lparr>Method = m, Target = ''/ok'', Header = h, Body = b\<rparr>)
    = Inr \<lparr>StatusCode = 200, ResponseBody = Reader ''[1,2]'' None\<rparr>"
  by (simp add: Do_def fixture_env_def fixture_RoundTrip_def)

lemma fixture_Unmarshal_Value:
  "json_Unmarshal fixture_env data (Value v) store = (None, store)"
  by (simp add: json_Unmarshal_def fixture_env_def)

theorem Request_payload_is_output_slot_witness:
  "snd (Request fixture_client fixture_env Some fixture_generic ''GET'' ''/ok'' (Pointer 0) fixture_store)
     = fixture_store(0 := ''[1,2]'')
   \<and> snd (Request fixture_client fixture_env Some fixture_generic ''GET'' ''/ok'' (Value ''[7]'') fixture_store)
     = fixture_store"
proof -
  have c: "StatusCode \<lparr>StatusCode = 200, ResponseBody = Reader ''[1,2]'' None\<rparr> < 400" by simp
  have d: "io_ReadAll (ResponseBody \<lparr>StatusCode = 200, ResponseBody = Reader ''[1,2]'' None\<rparr>) = Inr ''[1,2]''"
    by simp
  have e: "''[1,2]'' \<noteq> []" by simp
  have f: "''[1,2]'' \<noteq> ''{}''" by simp
  have 1: "snd (Request fixture_client fixture_env Some fixture_generic ''GET'' ''/ok'' (Pointer 0) fixture_store)
      = snd (json_Unmarshal fixture_env ''[1,2]'' (Pointer 0) fixture_store)"
    using Request_payload_is_output_slot [OF fixture_NewRequest fixture_Do_ok_any c d e f, of Some fixture_generic]
    by (rule conjunct1)
  have 2: "snd (Request fixture_client fixture_env Some fixture_generic ''GET'' ''/ok'' (Value ''[7]'') fixture_store)
      = snd (json_Unmarshal fixture_env ''[1,2]'' (Value ''[7]'') fixture_store)"
    using Request_payload_is_output_slot [OF fixture_NewRequest_Value fixture_Do_ok_any c d e f, of Some fixture_generic]
    by (rule conjunct1)
  show ?thesis
    unfolding 1 2 by (simp add: fixture_Unmarshal fixture_Unmarshal_Value)
qed

section \<open>The dispatcher\<close>

text \<open>
  C6. \<open>commandRequiresAuthentication\<close> is false for the command paths
  \<^verbatim>\<open>asgardeo login\<close> and \<^verbatim>\<open>asgardeo logout\<close> and true for every other one.
\<close>

theorem commandRequiresAuthentication_exempt:
  "commandRequiresAuthentication invokedCommandName
     = (invokedCommandName \<noteq> ''asgardeo login'' \<and> invokedCommandName \<noteq> ''asgardeo logout'')
   \<and> commandRequiresAuthentication ''asgardeo login'' = False
   \<and> commandRequiresAuthentication ''asgardeo logout'' = False
   \<and> commandRequiresAuthentication ''asgardeo applications list'' = True"
  by (simp add: commandRequiresAuthentication_def commandsWithNoAuthRequired_def)

text \<open>
  C7. For a command path that requires authentication the hook runs the session setup
  first: when the setup fails, the hook returns its error wrapped behind
  \<^verbatim>\<open>authentication failed:\<close>, and the execution ends there, in the state the setup
  left, whatever the command body is; when it succeeds, the body runs after it. For an
  exempt path the hook returns no error and leaves the state as it was, so the setup did
  not run.
\<close>

theorem PersistentPreRunE_gate:
  "(commandRequiresAuthentication commandPath \<longrightarrow>
      SetupWithAuthentication cli s = (Some err, s') \<longrightarrow>
        PersistentPreRunE cli commandPath s = (Some (Errorf ''authentication failed: '' err), s')
        \<and> Error_text (Errorf ''authentication failed: '' err)
            = ''authentication failed: '' @ Error_text err
        \<and> Unwrap (Errorf ''authentication failed: '' err) = Some err
        \<and> cobra_execute cli commandPath RunE s
            = (Some (Errorf ''authentication failed: '' err), s'))
   \<and> (commandRequiresAuthentication commandPath \<longrightarrow>
        SetupWithAuthentication cli s = (None, s') \<longrightarrow>
          PersistentPreRunE cli commandPath s = (None, s')
          \<and> cobra_execute cli commandPath RunE s = RunE s')
   \<and> (\<not> commandRequiresAuthentication commandPath \<longrightarrow>
        PersistentPreRunE cli commandPath s = (None, s)
        \<and> cobra_execute cli commandPath RunE s = RunE s)"
  by (simp add: PersistentPreRunE_def cobra_execute_def)

theorem PersistentPreRunE_gate_witness:
  "commandRequiresAuthentication ''asgardeo applications list''
   \<and> \<not> commandRequiresAuthentication ''asgardeo login''
   \<and> cobra_execute (fixture_cli False) ''asgardeo applications list'' fixture_RunE []
     = (Some (Errorf ''authentication failed: '' (SetupError ''not logged in'')), [SetupCalled])
   \<and> cobra_execute (fixture_cli True) ''asgardeo applications list'' fixture_RunE []
     = (None, [SetupCalled, BodyRan])
   \<and> cobra_execute (fixture_cli False) ''asgardeo login'' fixture_RunE [] = (None, [BodyRan])"
proof -
  have r: "commandRequiresAuthentication ''asgardeo applications list''"
    by (simp add: commandRequiresAuthentication_def commandsWithNoAuthRequired_def)
  have e: "\<not> commandRequiresAuthentication ''asgardeo login''"
    by (simp add: commandRequiresAuthentication_def commandsWithNoAuthRequired_def)
  have f: "SetupWithAuthentication (fixture_cli False) []
      = (Some (SetupError ''not logged in''), [SetupCalled])"
    by (simp add: fixture_cli_def)
  have t: "SetupWithAuthentication (fixture_cli True) [] = (None, [SetupCalled])"
    by (simp add: fixture_cli_def)
  have 1: "cobra_execute (fixture_cli False) ''asgardeo applications list'' fixture_RunE []
     = (Some (Errorf ''authentication failed: '' (SetupError ''not logged in'')), [SetupCalled])"
    using PersistentPreRunE_gate [of "''asgardeo applications list''" "fixture_cli False" "[]"
        "SetupError ''not logged in''" "[SetupCalled]" fixture_RunE] r f
    by simp
  have 2: "cobra_execute (fixture_cli True) ''asgardeo applications list'' fixture_RunE []
     = fixture_RunE [SetupCalled]"
    using PersistentPreRunE_gate [of "''asgardeo applications list''" "fixture_cli True" "[]"
        "SetupError ''not logged in''" "[SetupCalled]" fixture_RunE] r t
    by simp
  have 3: "cobra_execute (fixture_cli False) ''asgardeo login'' fixture_RunE [] = fixture_RunE []"
    using PersistentPreRunE_gate [of "''asgardeo login''" "fixture_cli False" "[]"
        "SetupError ''not logged in''" "[SetupCalled]" fixture_RunE] e
    by simp
  show ?thesis
    unfolding 1 2 3 using r e by (simp add: fixture_RunE_def)
qed

end
